theory Spec2Isabelle
  imports
    Complex_Main
    "HOL-Library.Char_ord"
    "HOL-Library.List_Lexorder"
    "HOL-Library.Product_Lexorder"
    "HOL-Library.Sublist"
begin

section \<open>Python values, exceptions and dataframe rows\<close>

text \<open>
  Exceptions of the Python program are values of \<open>error\<close>; a computation that may raise
  returns \<open>error + 'a\<close>, \<open>Inl\<close> carrying the exception.  \<open>ValidationError\<close> is pydantic's
  (a subclass of \<open>ValueError\<close> in Python), \<open>SchemaError\<close> is pandera's, \<open>NotFittedError\<close> is
  scikit-learn's, \<open>ExternalError\<close> stands for whatever an external collaborator (object
  store, tracking server, estimator library) raises.
\<close>

datatype error =
    AttributeError
  | ValueError
  | KeyError
  | TypeError
  | IndexError
  | ValidationError
  | SchemaError
  | NotFittedError
  | StopIteration
  | ExternalError string

text \<open>
  \<open>is_ValueError\<close> is Python's \<open>isinstance(e, ValueError)\<close>: pydantic's
  \<open>ValidationError\<close> derives from \<open>ValueError\<close>; \<open>KeyError\<close> and \<open>TypeError\<close> do not.
\<close>

fun is_ValueError :: "error \<Rightarrow> bool" where
  "is_ValueError ValueError = True"
| "is_ValueError ValidationError = True"
| "is_ValueError _ = False"

text \<open>
  The values an attribute of a model object can hold.  \<open>PLabelEncoder classes\<close> is a
  fitted \<open>LabelEncoder\<close> with its sorted \<open>classes_\<close>; \<open>PMostFrequent d\<close> is the
  \<open>Pipeline\<close> around \<open>MostFrequentCategoryByMerchant\<close> with its \<open>merchant_to_category_\<close>
  dictionary; \<open>PSklearnPipeline None\<close> is the scikit-learn pipeline of
  \<open>SKLearnPipelineModel\<close> as created, \<open>PSklearnPipeline (Some est)\<close> the fitted one, the
  fitted estimator \<open>est\<close> being opaque.
\<close>

datatype 'est pyval =
    PNone
  | PStr string
  | PInt int
  | PBool bool
  | PLabelEncoder "string list"
  | PMostFrequent "(string \<times> nat) list"
  | PSklearnPipeline "'est option"

text \<open>What a method call evaluates to: \<open>None\<close> or the receiver itself.\<close>

datatype retval = RNone | RSelf

text \<open>
  A row of the feature dataframe (\<open>FeatInputsSchema\<close>); \<open>None\<close> is a missing value (NaN).
  The amount is a float in the source; its arithmetic plays no part here and it is kept
  as a rational.
\<close>

record FeatRow =
  AMOUNT :: "rat option"
  TYPE_OF_PAYMENT :: "string option"
  MERCHANT_NAME :: "string option"
  DESCRIPTION :: "string option"

section \<open>core/models.py\<close>

subsection \<open>The label encoder used by both models\<close>

text \<open>
  \<open>LabelEncoder.fit_transform\<close> sorts the distinct labels into \<open>classes_\<close> and encodes every
  label as its position; \<open>transform\<close> and \<open>inverse_transform\<close> return an empty array on an
  empty input and raise \<open>ValueError\<close> on a label or a code that was not seen.
\<close>

definition LabelEncoder_classes :: "string list \<Rightarrow> string list" where
  "LabelEncoder_classes targets = sort (remdups targets)"

fun index_of :: "'a list \<Rightarrow> 'a \<Rightarrow> nat option" where
  "index_of [] y = None"
| "index_of (x # xs) y = (if x = y then Some 0 else map_option Suc (index_of xs y))"

fun sequence :: "(error + 'a) list \<Rightarrow> error + 'a list" where
  "sequence [] = Inr []"
| "sequence (Inl e # rs) = Inl e"
| "sequence (Inr x # rs) = (case sequence rs of Inl e \<Rightarrow> Inl e | Inr xs \<Rightarrow> Inr (x # xs))"

definition LabelEncoder_transform :: "string list \<Rightarrow> string list \<Rightarrow> error + nat list" where
  "LabelEncoder_transform classes ys =
     sequence (map (\<lambda>y. case index_of classes y of None \<Rightarrow> Inl ValueError | Some i \<Rightarrow> Inr i) ys)"

definition LabelEncoder_inverse_transform :: "string list \<Rightarrow> nat list \<Rightarrow> error + string list" where
  "LabelEncoder_inverse_transform classes codes =
     (if list_ex (\<lambda>c. \<not> c < length classes) codes then Inl ValueError
      else Inr (map (\<lambda>c. classes ! c) codes))"

subsection \<open>MostFrequentCategoryByMerchant\<close>

text \<open>
  \<open>drop_duplicates_by\<close> is pandas' \<open>drop_duplicates(subset)\<close>: the first row of every key
  is kept, in order.
\<close>

fun drop_duplicates_seen :: "'k list \<Rightarrow> ('a \<Rightarrow> 'k) \<Rightarrow> 'a list \<Rightarrow> 'a list" where
  "drop_duplicates_seen seen f [] = []"
| "drop_duplicates_seen seen f (x # xs) =
     (if f x \<in> set seen then drop_duplicates_seen seen f xs
      else x # drop_duplicates_seen (f x # seen) f xs)"

definition drop_duplicates_by :: "('a \<Rightarrow> 'k) \<Rightarrow> 'a list \<Rightarrow> 'a list" where
  "drop_duplicates_by f xs = drop_duplicates_seen [] f xs"

text \<open>
  \<open>df.groupby(["MERCHANT_NAME", "CATEGORY"]).size().reset_index(name="count")\<close>: one row
  per (merchant, category) pair in ascending key order with the number of rows of the
  pair; rows without a merchant are dropped by \<open>groupby\<close>.
\<close>

definition merchant_label_counts ::
  "(string option \<times> nat) list \<Rightarrow> ((string \<times> nat) \<times> nat) list" where
  "merchant_label_counts df =
     (let keyed = concat (map (\<lambda>(m, c). case m of None \<Rightarrow> [] | Some n \<Rightarrow> [(n, c)]) df)
      in map (\<lambda>k. (k, count_list keyed k)) (sort (remdups keyed)))"

text \<open>
  \<open>fit\<close>: assigning \<open>y\<close> as a column raises \<open>ValueError\<close> when its length differs from the
  number of rows.  The counts are sorted by descending count, the first row of each
  merchant is kept, and the dictionary is built from the remaining (merchant, category)
  pairs.  Rows of equal count keep their order here; pandas' default sort does not
  promise an order among them, so which of two equally frequent categories of a
  merchant wins is not fixed by the source.
\<close>

definition MostFrequentCategoryByMerchant_fit ::
  "FeatRow list \<Rightarrow> nat list \<Rightarrow> error + (string \<times> nat) list" where
  "MostFrequentCategoryByMerchant_fit X y =
     (if length y \<noteq> length X then Inl ValueError
      else
        let df = zip (map MERCHANT_NAME X) y;
            counts = merchant_label_counts df;
            most_frequent =
              drop_duplicates_by (\<lambda>(k, n). fst k) (sort_key (\<lambda>(k, n). - int n) counts)
        in Inr (map fst most_frequent))"

text \<open>
  \<open>transform\<close>: every merchant is looked up in the dictionary; a merchant that is missing
  or not a key gives NaN, which \<open>nan_to_num(outputs, nan=25.0).astype(int)\<close> turns into 25.
\<close>

definition MostFrequentCategoryByMerchant_transform ::
  "(string \<times> nat) list \<Rightarrow> FeatRow list \<Rightarrow> nat list" where
  "MostFrequentCategoryByMerchant_transform merchant_to_category X =
     map (\<lambda>r. case MERCHANT_NAME r of
                 None \<Rightarrow> 25
               | Some m \<Rightarrow> (case map_of merchant_to_category m of None \<Rightarrow> 25 | Some c \<Rightarrow> c)) X"

subsection \<open>Model objects\<close>

text \<open>
  A model object is a pydantic model: its class, the values of its declared fields in
  declaration order (what \<open>model_dump()\<close> iterates over), and the other instance attributes
  (names starting with an underscore, which pydantic keeps out of the fields).
\<close>

datatype ModelClass = BaselineModel | SKLearnPipelineModel

record 'est Model =
  cls :: ModelClass
  attrs :: "(string \<times> 'est pyval) list"
  plain_attrs :: "(string \<times> 'est pyval) list"

text \<open>The annotation of a field, checked in strict mode when the object is constructed.\<close>

datatype annotation = TLiteral string | TStr | TInt | TNone

fun conforms :: "annotation \<Rightarrow> 'est pyval \<Rightarrow> bool" where
  "conforms (TLiteral s) (PStr t) = (s = t)"
| "conforms TStr (PStr t) = True"
| "conforms TInt (PInt i) = True"
| "conforms TNone PNone = True"
| "conforms _ _ = False"

text \<open>The declared fields of each class: name, annotation, default.\<close>

fun model_fields :: "ModelClass \<Rightarrow> (string \<times> annotation \<times> 'est pyval) list" where
  "model_fields BaselineModel =
     [(''KIND'', TLiteral ''BaselineModel'', PStr ''BaselineModel''),
      (''corespondance_table_path'', TStr, PStr ''data/corespondance_table.csv''),
      (''pipeline'', TNone, PNone),
      (''le'', TNone, PNone)]"
| "model_fields SKLearnPipelineModel =
     [(''KIND'', TLiteral ''SKLearnPipelineModel'', PStr ''SKLearnPipelineModel''),
      (''max_features_desc'', TInt, PInt 1000),
      (''n_components_desc'', TInt, PInt 50),
      (''max_features_merch'', TInt, PInt 500),
      (''n_components_merch'', TInt, PInt 30),
      (''random_state'', TInt, PInt 42),
      (''n_estimators'', TInt, PInt 200),
      (''max_depth'', TInt, PInt 30),
      (''n_jobs'', TInt, PInt (- 1)),
      (''pipeline'', TNone, PNone),
      (''le'', TNone, PNone)]"

definition field_names :: "ModelClass \<Rightarrow> string list" where
  "field_names c = map fst (model_fields c :: (string \<times> annotation \<times> unit pyval) list)"

text \<open>
  The hyperparameters of a class: its declared fields other than the discriminator and
  the two slots of the fitted state.
\<close>

definition hyperparameters :: "ModelClass \<Rightarrow> string list" where
  "hyperparameters c = filter (\<lambda>k. k \<notin> {''KIND'', ''pipeline'', ''le''}) (field_names c)"

text \<open>
  Construction \<open>cls(**kwargs)\<close> under \<open>strict=True, extra="forbid"\<close>: a keyword that is not
  a declared field, or a value that does not conform to the annotation of its field,
  fails with pydantic's \<open>ValidationError\<close>; a field that is not given takes its default.
\<close>

definition construct :: "ModelClass \<Rightarrow> (string \<times> 'est pyval) list \<Rightarrow> error + 'est Model" where
  "construct c kwargs =
     (if list_ex (\<lambda>(k, v). k \<notin> set (field_names c)) kwargs then Inl ValidationError
      else if list_ex (\<lambda>(n, t, d). case map_of kwargs n of None \<Rightarrow> False | Some v \<Rightarrow> \<not> conforms t v)
                (model_fields c :: (string \<times> annotation \<times> 'est pyval) list)
      then Inl ValidationError
      else Inr \<lparr> cls = c,
                 attrs = map (\<lambda>(n, t, d). (n, case map_of kwargs n of None \<Rightarrow> d | Some v \<Rightarrow> v))
                           (model_fields c),
                 plain_attrs = [] \<rparr>)"

text \<open>
  \<open>setattr(self, key, value)\<close> on a pydantic model that is not frozen and does not validate
  assignments: a name starting with an underscore becomes a plain instance attribute, a
  declared field is overwritten as it is, any other name raises \<open>ValueError\<close>
  ("object has no field").
\<close>

fun upd :: "'k \<Rightarrow> 'v \<Rightarrow> ('k \<times> 'v) list \<Rightarrow> ('k \<times> 'v) list" where
  "upd k v [] = [(k, v)]"
| "upd k v ((k', v') # ps) = (if k' = k then (k, v) # ps else (k', v') # upd k v ps)"

definition startswith_underscore :: "string \<Rightarrow> bool" where
  "startswith_underscore k = (case k of [] \<Rightarrow> False | c # cs \<Rightarrow> c = CHR ''_'')"

definition py_setattr :: "'est Model \<Rightarrow> string \<Rightarrow> 'est pyval \<Rightarrow> error + 'est Model" where
  "py_setattr m k v =
     (if startswith_underscore k then Inr (m\<lparr>plain_attrs := upd k v (plain_attrs m)\<rparr>)
      else if k \<notin> set (field_names (cls m)) then Inl ValueError
      else Inr (m\<lparr>attrs := upd k v (attrs m)\<rparr>))"

text \<open>Reading an attribute: \<open>AttributeError\<close> when the object has none of that name.\<close>

definition py_getattr :: "'est Model \<Rightarrow> string \<Rightarrow> error + 'est pyval" where
  "py_getattr m k =
     (case map_of (if startswith_underscore k then plain_attrs m else attrs m) k of
        None \<Rightarrow> Inl AttributeError
      | Some v \<Rightarrow> Inr v)"

subsection \<open>get_params and set_params\<close>

text \<open>
  \<open>str.isupper()\<close>: at least one cased character and no lowercase one (field names are
  ASCII identifiers).
\<close>

definition is_upper_char :: "char \<Rightarrow> bool" where
  "is_upper_char c = (CHR ''A'' \<le> c \<and> c \<le> CHR ''Z'')"

definition is_lower_char :: "char \<Rightarrow> bool" where
  "is_lower_char c = (CHR ''a'' \<le> c \<and> c \<le> CHR ''z'')"

definition isupper :: "string \<Rightarrow> bool" where
  "isupper k = (list_ex is_upper_char k \<and> \<not> list_ex is_lower_char k)"

definition model_dump :: "'est Model \<Rightarrow> (string \<times> 'est pyval) list" where
  "model_dump m = attrs m"

definition get_params :: "'est Model \<Rightarrow> (string \<times> 'est pyval) list" where
  "get_params m =
     filter (\<lambda>(key, val). \<not> startswith_underscore key \<and> \<not> isupper key) (model_dump m)"

fun set_params :: "'est Model \<Rightarrow> (string \<times> 'est pyval) list \<Rightarrow> 'est Model \<times> (error + retval)" where
  "set_params m [] = (m, Inr RSelf)"
| "set_params m ((key, val) # params) =
     (case py_setattr m key val of
        Inl e \<Rightarrow> (m, Inl e)
      | Inr m' \<Rightarrow> set_params m' params)"

subsection \<open>fit and predict\<close>

text \<open>
  The estimator library behind \<open>SKLearnPipelineModel\<close> is an external collaborator:
  \<open>pipeline_fit\<close> takes the hyperparameter values read by \<open>_create_pipeline\<close>, the inputs and
  the encoded targets, and returns the fitted estimator or raises; \<open>pipeline_predict\<close>
  returns the encoded outputs of a fitted estimator or raises.
\<close>

record 'est sklearn =
  pipeline_fit :: "'est pyval list \<Rightarrow> FeatRow list \<Rightarrow> nat list \<Rightarrow> error + 'est"
  pipeline_predict :: "'est \<Rightarrow> FeatRow list \<Rightarrow> error + nat list"

text \<open>
  An object held by an attribute that is mutated in place (\<open>self.pipeline.fit(...)\<close>): the
  attribute then holds the mutated object.
\<close>

definition mutate :: "'est Model \<Rightarrow> string \<Rightarrow> 'est pyval \<Rightarrow> 'est Model" where
  "mutate m k v = m\<lparr>attrs := upd k v (attrs m)\<rparr>"

definition encode_target :: "'est Model \<Rightarrow> string list \<Rightarrow> error + nat list" where
  "encode_target self outputs =
     (case py_getattr self ''le'' of
        Inl e \<Rightarrow> Inl e
      | Inr (PLabelEncoder classes) \<Rightarrow> LabelEncoder_transform classes outputs
      | Inr _ \<Rightarrow> Inl AttributeError)"

definition decode_target :: "'est Model \<Rightarrow> nat list \<Rightarrow> error + string list" where
  "decode_target self outputs_encoded =
     (case py_getattr self ''le'' of
        Inl e \<Rightarrow> Inl e
      | Inr (PLabelEncoder classes) \<Rightarrow> LabelEncoder_inverse_transform classes outputs_encoded
      | Inr _ \<Rightarrow> Inl AttributeError)"

text \<open>
  \<open>BaselineModel.fit\<close>: the method has no \<open>return\<close> statement, so a call evaluates to
  \<open>None\<close>.  The second component is the outcome of the call, the first the state of the
  object after it (also when the call raised).
\<close>

definition BaselineModel_fit ::
  "'est Model \<Rightarrow> FeatRow list \<Rightarrow> string list \<Rightarrow> 'est Model \<times> (error + retval)" where
  "BaselineModel_fit self inputs targets =
     (let classes = LabelEncoder_classes targets in
      case py_setattr self ''le'' (PLabelEncoder classes) of
        Inl e \<Rightarrow> (self, Inl e)
      | Inr self1 \<Rightarrow>
     (case LabelEncoder_transform classes targets of
        Inl e \<Rightarrow> (self1, Inl e)
      | Inr targets_enc \<Rightarrow>
     (case py_setattr self1 ''pipeline'' (PMostFrequent []) of
        Inl e \<Rightarrow> (self1, Inl e)
      | Inr self2 \<Rightarrow>
     (case MostFrequentCategoryByMerchant_fit inputs targets_enc of
        Inl e \<Rightarrow> (self2, Inl e)
      | Inr d \<Rightarrow> (mutate self2 ''pipeline'' (PMostFrequent d), Inr RNone)))))"

text \<open>
  \<open>BaselineModel.predict\<close>: \<open>self.pipeline.transform(inputs)\<close> raises \<open>AttributeError\<close>
  when \<open>pipeline\<close> holds \<open>None\<close> (or anything without that method).
\<close>

definition BaselineModel_predict :: "'est Model \<Rightarrow> FeatRow list \<Rightarrow> error + string list" where
  "BaselineModel_predict self inputs =
     (case py_getattr self ''pipeline'' of
        Inl e \<Rightarrow> Inl e
      | Inr (PMostFrequent d) \<Rightarrow>
          decode_target self (MostFrequentCategoryByMerchant_transform d inputs)
      | Inr _ \<Rightarrow> Inl AttributeError)"

fun getattrs :: "'est Model \<Rightarrow> string list \<Rightarrow> error + 'est pyval list" where
  "getattrs self [] = Inr []"
| "getattrs self (k # ks) =
     (case py_getattr self k of
        Inl e \<Rightarrow> Inl e
      | Inr v \<Rightarrow> (case getattrs self ks of Inl e \<Rightarrow> Inl e | Inr vs \<Rightarrow> Inr (v # vs)))"

text \<open>
  \<open>SKLearnPipelineModel.fit\<close>: the pipeline is created from the current hyperparameter
  values and stored before it is fitted; a fit that raises leaves the created pipeline
  in place.  There is no \<open>return\<close> statement either.
\<close>

definition create_pipeline :: "'est Model \<Rightarrow> error + 'est pyval list" where
  "create_pipeline self =
     getattrs self [''max_features_desc'', ''n_components_desc'', ''random_state'',
                    ''max_features_merch'', ''n_components_merch'',
                    ''n_estimators'', ''max_depth'', ''n_jobs'']"

definition SKLearnPipelineModel_fit ::
  "'est sklearn \<Rightarrow> 'est Model \<Rightarrow> FeatRow list \<Rightarrow> string list \<Rightarrow> 'est Model \<times> (error + retval)" where
  "SKLearnPipelineModel_fit sk self inputs targets =
     (let classes = LabelEncoder_classes targets in
      case py_setattr self ''le'' (PLabelEncoder classes) of
        Inl e \<Rightarrow> (self, Inl e)
      | Inr self1 \<Rightarrow>
     (case LabelEncoder_transform classes targets of
        Inl e \<Rightarrow> (self1, Inl e)
      | Inr targets_enc \<Rightarrow>
     (case create_pipeline self1 of
        Inl e \<Rightarrow> (self1, Inl e)
      | Inr params \<Rightarrow>
     (case py_setattr self1 ''pipeline'' (PSklearnPipeline None) of
        Inl e \<Rightarrow> (self1, Inl e)
      | Inr self2 \<Rightarrow>
     (case pipeline_fit sk params inputs targets_enc of
        Inl e \<Rightarrow> (self2, Inl e)
      | Inr est \<Rightarrow> (mutate self2 ''pipeline'' (PSklearnPipeline (Some est)), Inr RNone))))))"

text \<open>
  \<open>SKLearnPipelineModel.predict\<close>: a pipeline that was created but whose fit raised is
  rejected by scikit-learn itself.
\<close>

definition SKLearnPipelineModel_predict ::
  "'est sklearn \<Rightarrow> 'est Model \<Rightarrow> FeatRow list \<Rightarrow> error + string list" where
  "SKLearnPipelineModel_predict sk self inputs =
     (case py_getattr self ''pipeline'' of
        Inl e \<Rightarrow> Inl e
      | Inr (PSklearnPipeline (Some est)) \<Rightarrow>
          (case pipeline_predict sk est inputs of
             Inl e \<Rightarrow> Inl e
           | Inr outputs \<Rightarrow> decode_target self outputs)
      | Inr (PSklearnPipeline None) \<Rightarrow> Inl NotFittedError
      | Inr _ \<Rightarrow> Inl AttributeError)"

text \<open>Method dispatch on the class of the object.\<close>

definition fit ::
  "'est sklearn \<Rightarrow> 'est Model \<Rightarrow> FeatRow list \<Rightarrow> string list \<Rightarrow> 'est Model \<times> (error + retval)" where
  "fit sk self inputs targets =
     (case cls self of
        BaselineModel \<Rightarrow> BaselineModel_fit self inputs targets
      | SKLearnPipelineModel \<Rightarrow> SKLearnPipelineModel_fit sk self inputs targets)"

definition predict :: "'est sklearn \<Rightarrow> 'est Model \<Rightarrow> FeatRow list \<Rightarrow> error + string list" where
  "predict sk self inputs =
     (case cls self of
        BaselineModel \<Rightarrow> BaselineModel_predict self inputs
      | SKLearnPipelineModel \<Rightarrow> SKLearnPipelineModel_predict sk self inputs)"

text \<open>
  The objects a program can hold: those the constructor returned, and those obtained
  from them by \<open>fit\<close>, \<open>set_params\<close> and attribute assignment (also when the call raised).
\<close>

inductive model_instance :: "'est sklearn \<Rightarrow> 'est Model \<Rightarrow> bool" for sk :: "'est sklearn" where
  constructed: "construct c kwargs = Inr m \<Longrightarrow> model_instance sk m"
| fitted: "model_instance sk m \<Longrightarrow> model_instance sk (fst (fit sk m inputs targets))"
| params_set: "model_instance sk m \<Longrightarrow> model_instance sk (fst (set_params m params))"
| assigned: "model_instance sk m \<Longrightarrow> py_setattr m k v = Inr m' \<Longrightarrow> model_instance sk m'"

text \<open>
  An object is well formed when its fields are the declared fields of its class, in
  order.  \<open>frame ks m m'\<close>: the object \<open>m'\<close> differs from \<open>m\<close> at most in the fields \<open>ks\<close>.
\<close>

definition well_formed :: "'est Model \<Rightarrow> bool" where
  "well_formed m = (map fst (attrs m) = field_names (cls m))"

definition frame :: "string set \<Rightarrow> 'est Model \<Rightarrow> 'est Model \<Rightarrow> bool" where
  "frame ks m m' =
     (cls m' = cls m \<and> plain_attrs m' = plain_attrs m
      \<and> (\<forall>k. k \<notin> ks \<longrightarrow> map_of (attrs m') k = map_of (attrs m) k)
      \<and> (well_formed m \<longrightarrow> well_formed m'))"

text \<open>
  The chained call \<open>model.fit(inputs, targets).predict(inputs')\<close>: \<open>predict\<close> is looked up on
  what \<open>fit\<close> evaluated to, and \<open>None\<close> has no such attribute.
\<close>

definition fit_then_predict ::
  "'est sklearn \<Rightarrow> 'est Model \<Rightarrow> FeatRow list \<Rightarrow> string list \<Rightarrow> FeatRow list \<Rightarrow> error + string list" where
  "fit_then_predict sk self inputs targets inputs' =
     (case fit sk self inputs targets of
        (self', Inl e) \<Rightarrow> Inl e
      | (self', Inr RNone) \<Rightarrow> Inl AttributeError
      | (self', Inr RSelf) \<Rightarrow> predict sk self' inputs')"

text \<open>A freshly constructed object without keyword arguments, and example rows.\<close>

definition new_model :: "ModelClass \<Rightarrow> 'est Model" where
  "new_model c =
     \<lparr> cls = c, attrs = map (\<lambda>(n, t, d). (n, d)) (model_fields c), plain_attrs = [] \<rparr>"

definition merchant_row :: "string \<Rightarrow> FeatRow" where
  "merchant_row m =
     \<lparr> AMOUNT = Some 1, TYPE_OF_PAYMENT = Some ''card'', MERCHANT_NAME = Some m,
       DESCRIPTION = Some ''purchase'' \<rparr>"

definition example_inputs :: "FeatRow list" where
  "example_inputs = [merchant_row ''A'', merchant_row ''A'', merchant_row ''A'', merchant_row ''B'']"

definition example_targets :: "string list" where
  "example_targets = [''X'', ''X'', ''Y'', ''Z'']"

definition example_model :: "unit Model" where
  "example_model = fst (BaselineModel_fit (new_model BaselineModel) example_inputs example_targets)"

section \<open>utils/splitters.py\<close>

text \<open>
  \<open>train_test_split\<close> of the estimator library is an external collaborator: given the
  index array, the test size, the random state and the labels to stratify by (or
  \<open>None\<close>), it returns the train and the test indices or raises.  It is a function of its
  arguments: with an integer random state the library draws the same shuffle every time.
\<close>

type_synonym 'ts train_test_split =
  "nat list \<Rightarrow> 'ts \<Rightarrow> int \<Rightarrow> string list option \<Rightarrow> error + nat list \<times> nat list"

record 'ts TrainTestSplitter =
  test_size :: 'ts
  random_state :: int
  stratify :: bool

text \<open>
  \<open>split\<close> is a generator: its body runs when the first element is asked for.  The
  result is the exception raised then, or the list of the pairs it yields.
\<close>

definition split ::
  "'ts train_test_split \<Rightarrow> 'ts TrainTestSplitter \<Rightarrow> 'row list \<Rightarrow> string list
     \<Rightarrow> error + (nat list \<times> nat list) list" where
  "split tts self inputs targets =
     (let index = [0..<length inputs] in
      case tts index (test_size self) (random_state self)
             (if stratify self then Some targets else None) of
        Inl e \<Rightarrow> Inl e
      | Inr (train_index, test_index) \<Rightarrow> Inr [(train_index, test_index)])"

definition get_n_splits :: "'ts TrainTestSplitter \<Rightarrow> 'row list \<Rightarrow> string list \<Rightarrow> nat" where
  "get_n_splits self inputs targets = 1"

text \<open>\<open>next(...)\<close> on the generator.\<close>

definition next_split :: "error + 'a list \<Rightarrow> error + 'a" where
  "next_split g = (case g of Inl e \<Rightarrow> Inl e | Inr [] \<Rightarrow> Inl StopIteration | Inr (x # xs) \<Rightarrow> Inr x)"

text \<open>
  What the library promises about a call that returns: the two arrays are disjoint and
  together hold exactly the elements of the array that was split, when these are
  distinct.
\<close>

definition returns_partition :: "'ts train_test_split \<Rightarrow> bool" where
  "returns_partition tts =
     (\<forall>index ts rs st train test.
        distinct index \<and> tts index ts rs st = Inr (train, test) \<longrightarrow>
          set train \<inter> set test = {} \<and> set train \<union> set test = set index)"

text \<open>
  A stand-in for the library with an integer test size, used to run the definitions: as
  the library does, it raises \<open>ValueError\<close> when the test size is not between 1 and the
  number of samples minus one (so on an empty array in particular); otherwise the last
  \<open>test_size\<close> positions are held out.
\<close>

definition holdout :: "nat train_test_split" where
  "holdout index ts rs st =
     (if ts = 0 \<or> length index \<le> ts then Inl ValueError
      else Inr (take (length index - ts) index, drop (length index - ts) index))"

definition default_splitter :: "nat TrainTestSplitter" where
  "default_splitter = \<lparr> test_size = 1, random_state = 42, stratify = True \<rparr>"

section \<open>utils/signers.py\<close>

text \<open>
  What \<open>getattr(schemas, value, None)\<close> can find in the module \<open>core/schemas.py\<close>.  The
  names the source of the module binds are the imported modules, the type variable,
  the five schema classes and the three subscripted aliases.  Every other attribute of
  a module object has a name that starts with an underscore (\<open>__dict__\<close>, \<open>__class__\<close>,
  \<open>__doc__\<close>, ...) and comes from the interpreter: \<open>dunder\<close> gives these (\<open>None\<close> for a
  name that the module object does not have, or that holds \<open>None\<close>).
\<close>

datatype SchemaClass = Schema | InputsSchema | FeatInputsSchema | TargetsSchema | OutputsSchema

datatype pyobject =
    PyModule | PyTypeVar | PyGenericAlias | PyInstance | PyClass SchemaClass | PyOtherClass

definition schemas_globals :: "(string \<times> pyobject) list" where
  "schemas_globals =
     [(''datetime'', PyModule), (''T'', PyModule), (''pd'', PyModule), (''pa'', PyModule),
      (''papd'', PyModule), (''padt'', PyModule),
      (''TSchema'', PyTypeVar),
      (''Schema'', PyClass Schema),
      (''InputsSchema'', PyClass InputsSchema),
      (''FeatInputsSchema'', PyClass FeatInputsSchema),
      (''Inputs'', PyGenericAlias),
      (''TargetsSchema'', PyClass TargetsSchema),
      (''Targets'', PyGenericAlias),
      (''OutputsSchema'', PyClass OutputsSchema),
      (''Outputs'', PyGenericAlias)]"

definition schemas_getattr :: "(string \<Rightarrow> pyobject option) \<Rightarrow> string \<Rightarrow> pyobject option" where
  "schemas_getattr dunder val =
     (if startswith_underscore val then dunder val else map_of schemas_globals val)"

text \<open>
  \<open>issubclass(schema, schemas.Schema)\<close>: every class the module defines derives from
  \<open>Schema\<close>; the builtin raises \<open>TypeError\<close> when its first argument is not a class.
\<close>

fun issubclass_Schema :: "pyobject \<Rightarrow> error + bool" where
  "issubclass_Schema (PyClass c) = Inr True"
| "issubclass_Schema PyOtherClass = Inr False"
| "issubclass_Schema _ = Inl TypeError"

definition check_schema_name :: "(string \<Rightarrow> pyobject option) \<Rightarrow> string \<Rightarrow> error + string" where
  "check_schema_name dunder val =
     (case schemas_getattr dunder val of
        None \<Rightarrow> Inl ValueError
      | Some schema \<Rightarrow>
          (case issubclass_Schema schema of
             Inl e \<Rightarrow> Inl e
           | Inr sub \<Rightarrow> if \<not> sub then Inl ValueError else Inr val))"

record PanderaSigner =
  inputs_schema_name :: string
  outputs_schema_name :: string

text \<open>
  Constructing a \<open>PanderaSigner\<close> runs the field validator on both names.  pydantic turns
  a \<open>ValueError\<close> of a validator into its \<open>ValidationError\<close> after all fields were
  validated; any other exception leaves the constructor as it is.
\<close>

definition PanderaSigner_init ::
  "(string \<Rightarrow> pyobject option) \<Rightarrow> string \<Rightarrow> string \<Rightarrow> error + PanderaSigner" where
  "PanderaSigner_init dunder i_name o_name =
     (case check_schema_name dunder i_name of
        Inl e \<Rightarrow>
          (if e \<noteq> ValueError then Inl e
           else (case check_schema_name dunder o_name of
                   Inl e' \<Rightarrow> if e' \<noteq> ValueError then Inl e' else Inl ValidationError
                 | Inr v \<Rightarrow> Inl ValidationError))
      | Inr i \<Rightarrow>
          (case check_schema_name dunder o_name of
             Inl e' \<Rightarrow> if e' \<noteq> ValueError then Inl e' else Inl ValidationError
           | Inr out \<Rightarrow> Inr \<lparr> inputs_schema_name = i, outputs_schema_name = out \<rparr>))"

definition PANDERA_MLFLOW_MAPPING :: "(string \<times> string) list" where
  "PANDERA_MLFLOW_MAPPING =
     [(''bool'', ''boolean''), (''int'', ''long''), (''int8'', ''integer''),
      (''int16'', ''integer''), (''int32'', ''integer''), (''int64'', ''long''),
      (''uint'', ''long''), (''uint8'', ''integer''), (''uint16'', ''integer''),
      (''uint32'', ''integer''), (''uint64'', ''long''), (''float'', ''float''),
      (''float16'', ''float''), (''float32'', ''float''), (''float64'', ''double''),
      (''category'', ''string''), (''string'', ''string''), (''date'', ''datetime''),
      (''timestamp'', ''datetime''), (''datetime'', ''datetime''), (''binary'', ''binary'')]"

text \<open>
  A column of a pandera schema, with \<open>dtype\<close> the string \<open>str(pandera_col_spec.dtype)\<close>,
  and a column specification of an MLflow schema.
\<close>

record PanderaColumn =
  required :: bool
  dtype :: string

record ColSpec =
  col_name :: string
  optional :: bool
  col_type :: string

text \<open>
  \<open>_convert_pandera_to_mlflow\<close>: the loop over the columns; subscripting the mapping with
  a dtype name that is not a key raises \<open>KeyError\<close>.
\<close>

fun convert_pandera_to_mlflow :: "(string \<times> PanderaColumn) list \<Rightarrow> error + ColSpec list" where
  "convert_pandera_to_mlflow [] = Inr []"
| "convert_pandera_to_mlflow ((name, pandera_col_spec) # cols) =
     (case map_of PANDERA_MLFLOW_MAPPING (dtype pandera_col_spec) of
        None \<Rightarrow> Inl KeyError
      | Some mlflow_dtype_name \<Rightarrow>
          (case convert_pandera_to_mlflow cols of
             Inl e \<Rightarrow> Inl e
           | Inr mlflow_col_specs \<Rightarrow>
               Inr (\<lparr> col_name = name, optional = \<not> required pandera_col_spec,
                       col_type = mlflow_dtype_name \<rparr> # mlflow_col_specs)))"

text \<open>
  \<open>PanderaSigner.sign\<close>; \<open>to_schema\<close> gives the columns of a schema class as the
  validation library reports them.
\<close>

definition PanderaSigner_sign ::
  "(string \<Rightarrow> pyobject option) \<Rightarrow> (SchemaClass \<Rightarrow> (string \<times> PanderaColumn) list)
     \<Rightarrow> PanderaSigner \<Rightarrow> error + ColSpec list \<times> ColSpec list" where
  "PanderaSigner_sign dunder to_schema self =
     (case schemas_getattr dunder (inputs_schema_name self) of
        Some (PyClass pandera_inputs_schema) \<Rightarrow>
          (case schemas_getattr dunder (outputs_schema_name self) of
             Some (PyClass pandera_outputs_schema) \<Rightarrow>
               (case convert_pandera_to_mlflow (to_schema pandera_inputs_schema) of
                  Inl e \<Rightarrow> Inl e
                | Inr mlflow_inputs_schema \<Rightarrow>
                    (case convert_pandera_to_mlflow (to_schema pandera_outputs_schema) of
                       Inl e \<Rightarrow> Inl e
                     | Inr mlflow_outputs_schema \<Rightarrow>
                         Inr (mlflow_inputs_schema, mlflow_outputs_schema)))
           | _ \<Rightarrow> Inl AttributeError)
      | _ \<Rightarrow> Inl AttributeError)"

section \<open>Executions\<close>

text \<open>
  An execution is the list of the calls made to collaborators, in order, with its
  outcome: the exception raised or the value returned.  \<open>call ev r\<close> is one call with
  outcome \<open>r\<close>; \<open>bind\<close> is sequencing: what follows a raised exception does not run.
  Calls of the logger are not recorded.
\<close>

type_synonym ('ev, 'a) exec = "'ev list \<times> (error + 'a)"

definition ret :: "'a \<Rightarrow> ('ev, 'a) exec" where
  "ret x = ([], Inr x)"

definition lift :: "error + 'a \<Rightarrow> ('ev, 'a) exec" where
  "lift r = ([], r)"

definition call :: "'ev \<Rightarrow> error + 'a \<Rightarrow> ('ev, 'a) exec" where
  "call ev r = ([ev], r)"

definition bind :: "('ev, 'a) exec \<Rightarrow> ('a \<Rightarrow> ('ev, 'b) exec) \<Rightarrow> ('ev, 'b) exec" where
  "bind m f =
     (case m of
        (l, Inl e) \<Rightarrow> (l, Inl e)
      | (l, Inr x) \<Rightarrow> (case f x of (l', r) \<Rightarrow> (l @ l', r)))"

section \<open>jobs/base.py\<close>

datatype service = LoggerService | AWSService | MlflowService

datatype 'ev job_event = ServiceStart service | ServiceStop service | InRun 'ev

text \<open>
  Starting a service reaches outside the program (logging sinks, the AWS session, the
  tracking server) and may raise: \<open>start\<close> gives the outcome of each start.
  \<open>Service.stop\<close> does nothing, and no service overrides it.
\<close>

definition Service_stop :: "service \<Rightarrow> error + unit" where
  "Service_stop s = Inr ()"

definition Job_enter :: "(service \<Rightarrow> error + unit) \<Rightarrow> ('ev job_event, unit) exec" where
  "Job_enter start =
     bind (call (ServiceStart LoggerService) (start LoggerService)) (\<lambda>_.
     bind (call (ServiceStart AWSService) (start AWSService)) (\<lambda>_.
     call (ServiceStart MlflowService) (start MlflowService)))"

text \<open>\<open>__exit__\<close> ignores its arguments and returns \<open>False\<close>.\<close>

definition Job_exit :: "error option \<Rightarrow> ('ev job_event, bool) exec" where
  "Job_exit exc_value =
     bind (call (ServiceStop MlflowService) (Service_stop MlflowService)) (\<lambda>_.
     bind (call (ServiceStop AWSService) (Service_stop AWSService)) (\<lambda>_.
     bind (call (ServiceStop LoggerService) (Service_stop LoggerService)) (\<lambda>_.
     ret False)))"

text \<open>
  The statement \<open>with job as runner: runner.run()\<close>: \<open>__enter__\<close>, then the body, then
  \<open>__exit__\<close> with the exception of the body if it raised one; that exception is raised
  again unless \<open>__exit__\<close> returned true.  The body is given by the execution of \<open>run()\<close>.
  The outcome is \<open>Some\<close> of the value of the body, or \<open>None\<close> when an exception of the body
  was suppressed.
\<close>

definition with_job ::
  "(service \<Rightarrow> error + unit) \<Rightarrow> ('ev, 'a) exec \<Rightarrow> ('ev job_event, 'a option) exec" where
  "with_job start run =
     bind (Job_enter start) (\<lambda>runner.
       case run of (evs, outcome) \<Rightarrow>
         bind (map InRun evs, Inr ()) (\<lambda>_.
         bind (Job_exit (case outcome of Inl e \<Rightarrow> Some e | Inr v \<Rightarrow> None)) (\<lambda>suppress.
           case outcome of
             Inl e \<Rightarrow> if suppress then ret None else lift (Inl e)
           | Inr v \<Rightarrow> ret (Some v))))"

definition all_started :: "service \<Rightarrow> error + unit" where
  "all_started s = Inr ()"

section \<open>core/metrics.py and core/schemas.py\<close>

record SklearnMetric =
  name :: string
  greater_is_better :: bool

text \<open>
  \<open>SklearnMetric.score\<close>: \<open>metrics\<close> is the namespace of the library's scoring functions
  (\<open>getattr\<close> raises \<open>AttributeError\<close> on an unknown name); the score is multiplied by the
  sign.  Scores are floats in the source and rationals here.
\<close>

definition score ::
  "(string \<Rightarrow> (nat list \<Rightarrow> nat list \<Rightarrow> error + rat) option) \<Rightarrow> SklearnMetric
     \<Rightarrow> nat list \<Rightarrow> nat list \<Rightarrow> error + rat" where
  "score metrics self targets outputs =
     (case metrics (name self) of
        None \<Rightarrow> Inl AttributeError
      | Some metric \<Rightarrow>
          (let sign = (if greater_is_better self then 1 else - 1) in
           case metric outputs targets of
             Inl e \<Rightarrow> Inl e
           | Inr s \<Rightarrow> Inr (s * sign)))"

text \<open>
  \<open>FeatInputsSchema.check\<close>: the amount is not nullable and must be positive; the three
  text columns are nullable.  A dataframe that passes is returned as it is.
\<close>

definition FeatInputsSchema_check :: "FeatRow list \<Rightarrow> error + FeatRow list" where
  "FeatInputsSchema_check data =
     (if list_all (\<lambda>r. case AMOUNT r of None \<Rightarrow> False | Some a \<Rightarrow> 0 < a) data then Inr data
      else Inl SchemaError)"

section \<open>jobs/training.py\<close>

text \<open>A row of the dataframe that the reader returns.\<close>

record RawRow = FeatRow +
  TRANSACTION_ID :: string
  DATE_EMITTED :: int
  SIDE :: int
  CATEGORY :: string

definition features :: "RawRow \<Rightarrow> FeatRow" where
  "features r =
     \<lparr> AMOUNT = AMOUNT r, TYPE_OF_PAYMENT = TYPE_OF_PAYMENT r,
       MERCHANT_NAME = MERCHANT_NAME r, DESCRIPTION = DESCRIPTION r \<rparr>"

text \<open>Dataframe operations: \<open>fillna\<close> on one column, \<open>iloc\<close> with positions, \<open>dropna\<close>.\<close>

definition fillna :: "'a \<Rightarrow> 'a option \<Rightarrow> 'a option" where
  "fillna v x = (case x of None \<Rightarrow> Some v | Some y \<Rightarrow> Some y)"

definition iloc :: "'a list \<Rightarrow> nat list \<Rightarrow> error + 'a list" where
  "iloc df index =
     (if list_all (\<lambda>i. i < length df) index then Inr (map (\<lambda>i. df ! i) index)
      else Inl IndexError)"

definition dropna :: "FeatRow list \<Rightarrow> FeatRow list" where
  "dropna df =
     filter (\<lambda>r. AMOUNT r \<noteq> None \<and> TYPE_OF_PAYMENT r \<noteq> None \<and> MERCHANT_NAME r \<noteq> None
                 \<and> DESCRIPTION r \<noteq> None) df"

text \<open>
  The external collaborators of a training job: the estimator library, the reader, the
  scoring functions, the tracking client, the signer, the saver and the register.
\<close>

record ('est, 'ts, 'sg) collaborators =
  sklearn :: "'est sklearn"
  train_test_split :: "'ts train_test_split"
  start_run :: "error + string"
  read :: "error + RawRow list"
  metrics :: "string \<Rightarrow> (nat list \<Rightarrow> nat list \<Rightarrow> error + rat) option"
  log_metric :: "string \<Rightarrow> string \<Rightarrow> rat \<Rightarrow> error + unit"
  sign :: "FeatRow list \<Rightarrow> string list \<Rightarrow> error + 'sg"
  save :: "'est Model \<Rightarrow> 'sg \<Rightarrow> FeatRow list \<Rightarrow> error + string"
  register :: "string \<Rightarrow> string \<Rightarrow> error + nat"

record ('est, 'ts) TrainingJob =
  model :: "'est Model"
  scorers :: "SklearnMetric list"
  splitter :: "'ts TrainTestSplitter"
  registry_name :: string

datatype ('est, 'sg) train_event =
    StartRun
  | Read
  | Check "FeatRow list"
  | Split "FeatRow list" "string list"
  | Fit "FeatRow list" "string list"
  | Predict "FeatRow list"
  | Score string
  | LogMetric string rat
  | Sign "FeatRow list" "string list"
  | Save "'est Model" 'sg "FeatRow list"
  | Register string string
  | EndRun bool

record ('est, 'sg) locals =
  final_model :: "'est Model"
  outputs_test :: "string list"
  model_signature :: 'sg
  model_uri :: string
  model_version :: nat

text \<open>A call of \<open>fit\<close> inside a job: the new state of the model if it returned.\<close>

definition fit_call ::
  "'est sklearn \<Rightarrow> 'est Model \<Rightarrow> FeatRow list \<Rightarrow> string list \<Rightarrow> error + 'est Model" where
  "fit_call sk m inputs targets =
     (case fit sk m inputs targets of (m', Inl e) \<Rightarrow> Inl e | (m', Inr r) \<Rightarrow> Inr m')"

text \<open>The loop over the scorers.\<close>

fun score_all ::
  "('est, 'ts, 'sg) collaborators \<Rightarrow> string \<Rightarrow> 'est Model \<Rightarrow> string list \<Rightarrow> string list
     \<Rightarrow> SklearnMetric list \<Rightarrow> (('est, 'sg) train_event, unit) exec" where
  "score_all c run_id m targets_test outputs [] = ret ()"
| "score_all c run_id m targets_test outputs (scorer # rest) =
     bind (lift (encode_target m targets_test)) (\<lambda>targets_test_encoded.
     bind (lift (encode_target m outputs)) (\<lambda>outputs_test_encoded.
     bind (call (Score (name scorer))
             (score (metrics c) scorer targets_test_encoded outputs_test_encoded)) (\<lambda>s.
     bind (call (LogMetric (name scorer) s) (log_metric c run_id (name scorer) s)) (\<lambda>_.
     score_all c run_id m targets_test outputs rest))))"

text \<open>
  The context of the tracking run: the run is started, the body runs, and the run is
  ended as finished or failed; an exception of the body is raised again.
\<close>

definition run_context ::
  "error + string \<Rightarrow> (string \<Rightarrow> (('est, 'sg) train_event, 'a) exec)
     \<Rightarrow> (('est, 'sg) train_event, 'a) exec" where
  "run_context started body =
     bind (call StartRun started) (\<lambda>run_id.
       case body run_id of (l, r) \<Rightarrow> (l @ [EndRun (isl r)], r))"

text \<open>
  The two dataframe blocks of \<open>TrainingJob.run\<close>.  Feature selection: the four feature
  columns and the target are kept and duplicate rows are dropped (the first of equal
  rows stays).  Missing values cleaning: the three \<open>fillna\<close> assignments, in the order
  of the source.
\<close>

definition select_columns :: "RawRow list \<Rightarrow> (FeatRow \<times> string) list" where
  "select_columns inputs_raw =
     drop_duplicates_by id (map (\<lambda>r. (features r, CATEGORY r)) inputs_raw)"

definition missing_values_cleaning :: "FeatRow list \<Rightarrow> FeatRow list" where
  "missing_values_cleaning inputs1 =
     (let inputs2 = map (\<lambda>r. r\<lparr>MERCHANT_NAME := fillna ''No marchant'' (MERCHANT_NAME r)\<rparr>) inputs1;
          inputs3 = map (\<lambda>r. r\<lparr>DESCRIPTION := fillna ''No Description'' (DESCRIPTION r)\<rparr>) inputs2
      in map (\<lambda>r. r\<lparr>TYPE_OF_PAYMENT := fillna ''No type payment'' (TYPE_OF_PAYMENT r)\<rparr>) inputs3)"

text \<open>
  \<open>TrainingJob.run\<close>: the block under \<open>with self.mlflow_service.run_context(...) as run\<close>,
  and the method itself.
\<close>

definition TrainingJob_body ::
  "('est, 'ts, 'sg) collaborators \<Rightarrow> ('est, 'ts) TrainingJob \<Rightarrow> string
     \<Rightarrow> (('est, 'sg) train_event, ('est, 'sg) locals) exec" where
  "TrainingJob_body c self run_id =
     bind (call Read (read c)) (\<lambda>inputs_raw.
     let selected = select_columns inputs_raw;
         targets = map snd selected
     in
     bind (call (Check (map fst selected)) (FeatInputsSchema_check (map fst selected))) (\<lambda>inputs1.
     let inputs = missing_values_cleaning inputs1 in
     bind (call (Split inputs targets)
             (next_split (split (train_test_split c) (splitter self) inputs targets)))
       (\<lambda>(train_index, test_index).
     bind (lift (iloc inputs train_index)) (\<lambda>inputs_train.
     bind (lift (iloc inputs test_index)) (\<lambda>inputs_test.
     bind (lift (iloc targets train_index)) (\<lambda>targets_train.
     bind (lift (iloc targets test_index)) (\<lambda>targets_test.
     bind (call (Fit inputs_train targets_train)
             (fit_call (sklearn c) (model self) inputs_train targets_train)) (\<lambda>model1.
     bind (call (Predict inputs_test) (predict (sklearn c) model1 inputs_test)) (\<lambda>outputs.
     bind (score_all c run_id model1 targets_test outputs (scorers self)) (\<lambda>_.
     bind (call (Fit inputs targets) (fit_call (sklearn c) model1 inputs targets)) (\<lambda>model2.
     bind (call (Sign (dropna inputs_test) outputs) (sign c (dropna inputs_test) outputs)) (\<lambda>sg.
     bind (call (Save model2 sg inputs) (save c model2 sg inputs)) (\<lambda>uri.
     bind (call (Register (registry_name self) uri) (register c (registry_name self) uri)) (\<lambda>version.
     ret \<lparr> final_model = model2, outputs_test = outputs, model_signature = sg,
           model_uri = uri, model_version = version \<rparr>))))))))))))))"

definition TrainingJob_run ::
  "('est, 'ts, 'sg) collaborators \<Rightarrow> ('est, 'ts) TrainingJob
     \<Rightarrow> (('est, 'sg) train_event, ('est, 'sg) locals) exec" where
  "TrainingJob_run c self = run_context (start_run c) (TrainingJob_body c self)"

text \<open>
  The kind of call an event records, and the order of the calls of a training job with
  \<open>n\<close> scorers, from reading the inputs to registering the model.
\<close>

datatype step =
    ReadInputs | ValidateSchema | SplitOnce | FitModel | PredictOutputs | ScoreMetric
  | LogScore | SignModel | SaveModel | RegisterModel | RunStarted | RunEnded

fun step_of :: "('est, 'sg) train_event \<Rightarrow> step" where
  "step_of StartRun = RunStarted"
| "step_of Read = ReadInputs"
| "step_of (Check X) = ValidateSchema"
| "step_of (Split X y) = SplitOnce"
| "step_of (Fit X y) = FitModel"
| "step_of (Predict X) = PredictOutputs"
| "step_of (Score n) = ScoreMetric"
| "step_of (LogMetric n v) = LogScore"
| "step_of (Sign X y) = SignModel"
| "step_of (Save m sg X) = SaveModel"
| "step_of (Register n uri) = RegisterModel"
| "step_of (EndRun failed) = RunEnded"

definition training_steps :: "nat \<Rightarrow> step list" where
  "training_steps n =
     [ReadInputs, ValidateSchema, SplitOnce, FitModel, PredictOutputs]
     @ concat (replicate n [ScoreMetric, LogScore])
     @ [FitModel, SignModel, SaveModel, RegisterModel]"

text \<open>The rows handed to the splitter and to the model by an event.\<close>

fun model_rows :: "('est, 'sg) train_event \<Rightarrow> FeatRow list" where
  "model_rows (Split X y) = X"
| "model_rows (Fit X y) = X"
| "model_rows (Predict X) = X"
| "model_rows _ = []"

text \<open>
  A row after the cleaning of missing values, as the source fills it: a text value that
  is present is kept, a missing one is replaced by the literal of its column.
\<close>

definition cleaned :: "FeatRow \<Rightarrow> FeatRow" where
  "cleaned r =
     \<lparr> AMOUNT = AMOUNT r,
       TYPE_OF_PAYMENT =
         Some (case TYPE_OF_PAYMENT r of None \<Rightarrow> ''No type payment'' | Some t \<Rightarrow> t),
       MERCHANT_NAME = Some (case MERCHANT_NAME r of None \<Rightarrow> ''No marchant'' | Some m \<Rightarrow> m),
       DESCRIPTION = Some (case DESCRIPTION r of None \<Rightarrow> ''No Description'' | Some d \<Rightarrow> d) \<rparr>"

section \<open>Stand-ins for the collaborators\<close>

text \<open>
  Concrete collaborators on which the definitions can be run: an estimator that fits
  anything and predicts the first class, a scoring function, a tracking client, a
  signer, a saver and a register that always return.
\<close>

definition demo_sklearn :: "unit sklearn" where
  "demo_sklearn =
     \<lparr> pipeline_fit = (\<lambda>params X y. Inr ()),
       pipeline_predict = (\<lambda>est X. Inr (map (\<lambda>r. 0) X)) \<rparr>"

definition count_equal :: "nat list \<Rightarrow> nat list \<Rightarrow> error + rat" where
  "count_equal y_pred y_true =
     (if length y_pred \<noteq> length y_true then Inl ValueError
      else Inr (of_nat (length (filter (\<lambda>(p, t). p = t) (zip y_pred y_true)))))"

definition demo_metrics :: "string \<Rightarrow> (nat list \<Rightarrow> nat list \<Rightarrow> error + rat) option" where
  "demo_metrics n = (if n = ''accuracy_score'' then Some count_equal else None)"

definition raw_row :: "rat \<Rightarrow> string option \<Rightarrow> string \<Rightarrow> RawRow" where
  "raw_row a m c =
     \<lparr> AMOUNT = Some a, TYPE_OF_PAYMENT = None, MERCHANT_NAME = m, DESCRIPTION = None,
       TRANSACTION_ID = ''t'', DATE_EMITTED = 0, SIDE = 0, CATEGORY = c \<rparr>"

definition demo_rows :: "RawRow list" where
  "demo_rows =
     [raw_row 1 (Some ''A'') ''X'', raw_row 1 (Some ''A'') ''X'', raw_row 2 None ''Y'',
      raw_row 3 (Some ''A'') ''X'']"

definition demo_collaborators :: "(unit, nat, unit) collaborators" where
  "demo_collaborators =
     \<lparr> sklearn = demo_sklearn,
       train_test_split = holdout,
       start_run = Inr ''run'',
       read = Inr demo_rows,
       metrics = demo_metrics,
       log_metric = (\<lambda>run_id key val. Inr ()),
       sign = (\<lambda>inputs outputs. Inr ()),
       save = (\<lambda>m sg input_example. Inr ''models:/m''),
       register = (\<lambda>nm uri. Inr 1) \<rparr>"

definition demo_job :: "(unit, nat) TrainingJob" where
  "demo_job =
     \<lparr> model = new_model BaselineModel,
       scorers = [\<lparr> name = ''accuracy_score'', greater_is_better = True \<rparr>],
       splitter = default_splitter,
       registry_name = ''qto-categorizer-ml'' \<rparr>"

section \<open>Properties of the model objects\<close>

lemma field_names_eq: "map fst (model_fields c :: (string \<times> annotation \<times> 'est pyval) list) = field_names c"
  by (cases c) (simp_all add: field_names_def)

lemma distinct_field_names: "distinct (field_names c)"
  by (cases c) (simp_all add: field_names_def)

lemma map_fst_upd: "k \<in> set (map fst xs) \<Longrightarrow> map fst (upd k v xs) = map fst xs"
  by (induction xs) force+

lemma map_of_upd_other: "k' \<noteq> k \<Longrightarrow> map_of (upd k v xs) k' = map_of xs k'"
  by (induction xs) auto

lemma map_of_upd_same: "map_of (upd k v xs) k = Some v"
  by (induction xs) auto

lemma upd_same: "distinct (map fst xs) \<Longrightarrow> (k, v) \<in> set xs \<Longrightarrow> upd k v xs = xs"
  by (induction xs) (auto simp: rev_image_eqI)

lemma frame_refl: "frame ks m m"
  by (simp add: frame_def)

lemma frame_trans: "frame ks m m' \<Longrightarrow> frame ks m' m'' \<Longrightarrow> frame ks m m''"
  by (simp add: frame_def)

lemma frame_mono: "frame ks m m' \<Longrightarrow> ks \<subseteq> ks' \<Longrightarrow> frame ks' m m'"
  by (auto simp: frame_def)

lemma construct_wf: "construct c kwargs = Inr m \<Longrightarrow> well_formed m \<and> cls m = c"
  by (auto simp: construct_def well_formed_def field_names_eq comp_def case_prod_unfold split: if_splits)

lemma mutate_frame: "k \<in> set (field_names (cls m)) \<Longrightarrow> frame {k} m (mutate m k v)"
  by (simp add: frame_def mutate_def well_formed_def map_of_upd_other map_fst_upd)

lemma setattr_frame:
  "py_setattr m k v = Inr m' \<Longrightarrow> \<not> startswith_underscore k \<Longrightarrow> frame {k} m m'"
  using mutate_frame[of k m v]
  by (auto simp: py_setattr_def mutate_def split: if_splits)

lemma setattr_wf: "well_formed m \<Longrightarrow> py_setattr m k v = Inr m' \<Longrightarrow> well_formed m' \<and> cls m' = cls m"
  by (auto simp: py_setattr_def well_formed_def map_fst_upd split: if_splits)

lemma not_underscore [simp]: "\<not> startswith_underscore ''le''" "\<not> startswith_underscore ''pipeline''"
  by (simp_all add: startswith_underscore_def)

lemma pipeline_field: "''pipeline'' \<in> set (field_names c)" "''le'' \<in> set (field_names c)"
  by (cases c; simp add: field_names_def)+

lemma BaselineModel_fit_frame: "frame {''le'', ''pipeline''} m (fst (BaselineModel_fit m X y))"
proof -
  let ?ks = "{''le'', ''pipeline''}"
  have step: "\<And>m k v m'. py_setattr m k v = Inr m' \<Longrightarrow> k \<in> ?ks \<Longrightarrow> frame ?ks m m'"
    by (rule frame_mono[OF setattr_frame]) auto
  have mut: "\<And>m m' v. frame ?ks m m' \<Longrightarrow> frame ?ks m (mutate m' ''pipeline'' v)"
    by (rule frame_trans, assumption, rule frame_mono[OF mutate_frame]) (auto simp: pipeline_field)
  show ?thesis
    unfolding BaselineModel_fit_def Let_def
    by (auto split: sum.splits intro: frame_refl step mut frame_trans[OF step step])
qed

lemma SKLearnPipelineModel_fit_frame: "frame {''le'', ''pipeline''} m (fst (SKLearnPipelineModel_fit sk m X y))"
proof -
  let ?ks = "{''le'', ''pipeline''}"
  have step: "\<And>m k v m'. py_setattr m k v = Inr m' \<Longrightarrow> k \<in> ?ks \<Longrightarrow> frame ?ks m m'"
    by (rule frame_mono[OF setattr_frame]) auto
  have mut: "\<And>m m' v. frame ?ks m m' \<Longrightarrow> frame ?ks m (mutate m' ''pipeline'' v)"
    by (rule frame_trans, assumption, rule frame_mono[OF mutate_frame]) (auto simp: pipeline_field)
  show ?thesis
    unfolding SKLearnPipelineModel_fit_def Let_def
    by (auto split: sum.splits intro: frame_refl step mut frame_trans[OF step step])
qed

lemma fit_frame: "frame {''le'', ''pipeline''} m (fst (fit sk m X y))"
  by (simp add: fit_def BaselineModel_fit_frame SKLearnPipelineModel_fit_frame split: ModelClass.splits)

lemma set_params_wf: "well_formed m \<Longrightarrow> well_formed (fst (set_params m ps))"
proof (induction ps arbitrary: m)
  case Nil then show ?case by simp
next
  case (Cons p ps)
  obtain k v where p: "p = (k, v)" by (cases p)
  show ?case
  proof (cases "py_setattr m k v")
    case (Inl e) then show ?thesis using Cons.prems p by simp
  next
    case (Inr m')
    then show ?thesis using Cons.IH[of m'] setattr_wf[OF Cons.prems Inr] p by simp
  qed
qed

lemma instance_wf: "model_instance sk m \<Longrightarrow> well_formed m"
proof (induction rule: model_instance.induct)
  case (constructed c kwargs m) then show ?case by (simp add: construct_wf)
next
  case (fitted m inputs targets)
  then show ?case using fit_frame[of m sk inputs targets] by (simp add: frame_def)
next
  case (params_set m params) then show ?case by (simp add: set_params_wf)
next
  case (assigned m k v m') then show ?case using setattr_wf by blast
qed


lemma get_params_subset: "set (get_params m) \<subseteq> set (attrs m)"
  by (auto simp: get_params_def model_dump_def)

lemma set_params_same:
  "well_formed m \<Longrightarrow> set ps \<subseteq> set (attrs m) \<Longrightarrow> list_all (\<lambda>(k, v). \<not> startswith_underscore k) ps
     \<Longrightarrow> set_params m ps = (m, Inr RSelf)"
proof (induction ps)
  case Nil then show ?case by simp
next
  case (Cons p ps)
  obtain k v where p: "p = (k, v)" by (cases p)
  from Cons.prems p have mem: "(k, v) \<in> set (attrs m)" and nu: "\<not> startswith_underscore k" by auto
  from mem have "k \<in> set (map fst (attrs m))" by force
  with Cons.prems(1) have fld: "k \<in> set (field_names (cls m))" by (simp add: well_formed_def)
  have "distinct (map fst (attrs m))" using Cons.prems(1) by (simp add: well_formed_def distinct_field_names)
  then have "upd k v (attrs m) = attrs m" using mem by (rule upd_same)
  then have "py_setattr m k v = Inr m" using nu fld by (simp add: py_setattr_def)
  then show ?case using Cons p by simp
qed

lemma KIND_isupper: "isupper ''KIND''"
  by (simp add: isupper_def is_upper_char_def is_lower_char_def)

text \<open>
  C10.  For every model object, \<open>get_params\<close> returns exactly the fields whose names
  neither start with an underscore nor are fully uppercase, so never the \<open>KIND\<close>
  discriminator; and \<open>set_params(**get_params())\<close> returns the object itself with every
  field as it was, so that \<open>get_params\<close> gives the same result afterwards.
\<close>

theorem get_params_round_trip:
  assumes "model_instance sk m"
  shows "list_all (\<lambda>(k, v). \<not> startswith_underscore k \<and> \<not> isupper k) (get_params m)
       \<and> (\<forall>k v. (k, v) \<in> set (model_dump m) \<and> \<not> startswith_underscore k \<and> \<not> isupper k
              \<longrightarrow> (k, v) \<in> set (get_params m))
       \<and> ''KIND'' \<notin> set (map fst (get_params m))
       \<and> set_params m (get_params m) = (m, Inr RSelf)
       \<and> get_params (fst (set_params m (get_params m))) = get_params m"
proof -
  have wf: "well_formed m" using assms by (rule instance_wf)
  have a: "list_all (\<lambda>(k, v). \<not> startswith_underscore k \<and> \<not> isupper k) (get_params m)"
    by (simp add: get_params_def list_all_iff)
  have b: "\<forall>k v. (k, v) \<in> set (model_dump m) \<and> \<not> startswith_underscore k \<and> \<not> isupper k
              \<longrightarrow> (k, v) \<in> set (get_params m)"
    by (simp add: get_params_def)
  have c: "''KIND'' \<notin> set (map fst (get_params m))"
    using KIND_isupper by (auto simp: get_params_def)
  have nu: "list_all (\<lambda>(k, v). \<not> startswith_underscore k) (get_params m)"
    by (simp add: get_params_def list_all_iff)
  have d: "set_params m (get_params m) = (m, Inr RSelf)"
    using wf get_params_subset nu by (rule set_params_same)
  show ?thesis using a b c d by simp
qed

lemma construct_new: "construct c [] = Inr (new_model c)"
  by (simp add: construct_def new_model_def list_ex_iff case_prod_unfold)

lemma example_instance: "model_instance demo_sklearn example_model"
proof -
  have "model_instance demo_sklearn (new_model BaselineModel :: unit Model)"
    using construct_new by (rule model_instance.constructed)
  then have "model_instance demo_sklearn (fst (fit demo_sklearn (new_model BaselineModel) example_inputs example_targets))"
    by (rule model_instance.fitted)
  then show ?thesis by (simp add: fit_def example_model_def new_model_def)
qed

text \<open>The round trip on the fitted baseline model of the example.\<close>

theorem get_params_round_trip_witness:
  "map fst (get_params example_model) = [''corespondance_table_path'', ''pipeline'', ''le'']
   \<and> set_params example_model (get_params example_model) = (example_model, Inr RSelf)
   \<and> get_params (fst (set_params example_model (get_params example_model))) = get_params example_model"
proof -
  have "map fst (get_params example_model) = [''corespondance_table_path'', ''pipeline'', ''le'']"
    by code_simp
  then show ?thesis using get_params_round_trip[OF example_instance] by simp
qed

lemma construct_pipeline_None:
  assumes "construct c kwargs = Inr m"
  shows "map_of (attrs m) ''pipeline'' = Some PNone"
proof -
  have ok: "\<not> list_ex (\<lambda>(n, t, d). case map_of kwargs n of None \<Rightarrow> False | Some v \<Rightarrow> \<not> conforms t v)
                (model_fields c :: (string \<times> annotation \<times> 'a pyval) list)"
    and m: "attrs m = map (\<lambda>(n, t, d). (n, case map_of kwargs n of None \<Rightarrow> d | Some v \<Rightarrow> v)) (model_fields c)"
    using assms by (auto simp: construct_def split: if_splits)
  have "(''pipeline'', TNone, PNone) \<in> set (model_fields c :: (string \<times> annotation \<times> 'a pyval) list)"
    by (cases c) simp_all
  with ok have conf: "case map_of kwargs ''pipeline'' of None \<Rightarrow> True | Some v \<Rightarrow> conforms TNone v"
    by (auto simp: list_ex_iff split: option.splits)
  have val: "(case map_of kwargs ''pipeline'' of None \<Rightarrow> PNone | Some v \<Rightarrow> v) = PNone"
  proof (cases "map_of kwargs ''pipeline''")
    case None then show ?thesis by simp
  next
    case (Some v)
    with conf have "conforms TNone v" by simp
    then have "v = PNone" by (cases v) simp_all
    with Some show ?thesis by simp
  qed
  show ?thesis unfolding m using val by (cases c) simp_all
qed

text \<open>
  C2, as the code has it.  For both model classes and every input, \<open>predict\<close> on an
  object that the constructor has just returned raises \<open>AttributeError\<close>: the \<open>pipeline\<close>
  field holds \<open>None\<close>, and no \<open>NotFittedError\<close> is raised by the models themselves.
\<close>

theorem predict_before_fit_raises_AttributeError:
  assumes "construct c kwargs = Inr m"
  shows "predict sk m inputs = Inl AttributeError"
  using construct_pipeline_None[OF assms]
  by (simp add: predict_def BaselineModel_predict_def SKLearnPipelineModel_predict_def
                py_getattr_def split: ModelClass.splits)

text \<open>Both classes, constructed with and without a keyword argument.\<close>

theorem predict_before_fit_witness:
  "construct BaselineModel [] = Inr (new_model BaselineModel :: unit Model)
   \<and> predict demo_sklearn (new_model BaselineModel) example_inputs = Inl AttributeError
   \<and> construct SKLearnPipelineModel [(''n_jobs'', PInt 2)] =
        Inr (fst (set_params (new_model SKLearnPipelineModel :: unit Model) [(''n_jobs'', PInt 2)]))
   \<and> predict demo_sklearn (fst (set_params (new_model SKLearnPipelineModel) [(''n_jobs'', PInt 2)])) example_inputs
        = Inl AttributeError"
proof -
  have a: "construct BaselineModel [] = Inr (new_model BaselineModel :: unit Model)"
    by (rule construct_new)
  have b: "construct SKLearnPipelineModel [(''n_jobs'', PInt 2)] =
        Inr (fst (set_params (new_model SKLearnPipelineModel :: unit Model) [(''n_jobs'', PInt 2)]))"
    by code_simp
  show ?thesis
    using a b predict_before_fit_raises_AttributeError[OF a, of demo_sklearn example_inputs]
      predict_before_fit_raises_AttributeError[OF b, of demo_sklearn example_inputs]
    by simp
qed

text \<open>
  The exception of \<open>predict\<close> before any \<open>fit\<close> is not \<open>NotFittedError\<close>, for either class.
\<close>

theorem predict_before_fit_counterexample:
  "predict demo_sklearn (new_model BaselineModel) example_inputs = Inl AttributeError
   \<and> predict demo_sklearn (new_model SKLearnPipelineModel) example_inputs = Inl AttributeError
   \<and> AttributeError \<noteq> NotFittedError"
  by code_simp

lemma hyperparameters_fields:
  "k \<in> set (hyperparameters c) \<Longrightarrow>
     k \<in> set (field_names c) \<and> \<not> startswith_underscore k \<and> k \<notin> {''le'', ''pipeline''}"
  by (cases c) (auto simp: hyperparameters_def field_names_def startswith_underscore_def)

text \<open>
  C9, as the code has it.  Constructing a model with a keyword that is not a declared
  field fails with the validation error.  A hyperparameter keeps its value through
  \<open>fit\<close> (whether the call returns or raises; \<open>predict\<close> does not change the object at all),
  but it is not immutable: the model is not frozen, and \<open>set_params\<close> overwrites the
  named hyperparameter in place with the given value, whatever it is.
\<close>

theorem hyperparameters_changed_only_by_set_params:
  assumes hp: "k \<in> set (hyperparameters (cls m))"
  shows "(\<forall>c kwargs k' v'. (k', v') \<in> set kwargs \<and> k' \<notin> set (field_names c)
            \<longrightarrow> (construct c kwargs :: error + 'a Model) = Inl ValidationError)
       \<and> py_getattr (fst (fit sk m X y)) k = py_getattr m k
       \<and> snd (set_params m [(k, v)]) = Inr RSelf
       \<and> py_getattr (fst (set_params m [(k, v)])) k = Inr v"
proof -
  note f = hyperparameters_fields[OF hp]
  have a: "\<forall>c kwargs k' v'. (k', v') \<in> set kwargs \<and> k' \<notin> set (field_names c)
            \<longrightarrow> (construct c kwargs :: error + 'a Model) = Inl ValidationError"
    by (auto simp: construct_def list_ex_iff)
  have "frame {''le'', ''pipeline''} m (fst (fit sk m X y))" by (rule fit_frame)
  then have b: "py_getattr (fst (fit sk m X y)) k = py_getattr m k"
    using f by (simp add: frame_def py_getattr_def)
  have s: "py_setattr m k v = Inr (m\<lparr>attrs := upd k v (attrs m)\<rparr>)"
    using f by (simp add: py_setattr_def)
  have c: "snd (set_params m [(k, v)]) = Inr RSelf" using s by simp
  have d: "py_getattr (fst (set_params m [(k, v)])) k = Inr v"
    using s f by (simp add: py_getattr_def map_of_upd_same)
  show ?thesis using a b c d by simp
qed

lemma n_estimators_hyper: "''n_estimators'' \<in> set (hyperparameters (cls (new_model SKLearnPipelineModel :: unit Model)))"
  by (simp add: new_model_def hyperparameters_def field_names_def)

text \<open>The pipeline model with its default of 200 estimators.\<close>

theorem hyperparameters_witness:
  "construct SKLearnPipelineModel [(''n_trees'', PInt 5)] = (Inl ValidationError :: error + unit Model)
   \<and> py_getattr (fst (fit demo_sklearn (new_model SKLearnPipelineModel) example_inputs example_targets)) ''n_estimators''
       = Inr (PInt 200)
   \<and> py_getattr (fst (set_params (new_model SKLearnPipelineModel :: unit Model) [(''n_estimators'', PInt 5)])) ''n_estimators''
       = Inr (PInt 5)"
proof -
  have g: "py_getattr (new_model SKLearnPipelineModel :: unit Model) ''n_estimators'' = Inr (PInt 200)"
    by code_simp
  have k: "(''n_trees'', PInt 5 :: unit pyval) \<in> set [(''n_trees'', PInt 5)] \<and> ''n_trees'' \<notin> set (field_names SKLearnPipelineModel)"
    by (simp add: field_names_def)
  show ?thesis
    using hyperparameters_changed_only_by_set_params[OF n_estimators_hyper, of demo_sklearn example_inputs example_targets "PInt 5"] g k
    by metis
qed

text \<open>
  A validated hyperparameter changed after construction: \<open>n_estimators\<close> is 200 in the
  constructed object and 5 after \<open>set_params(n_estimators=5)\<close>.
\<close>

theorem hyperparameters_immutable_counterexample:
  "construct SKLearnPipelineModel [] = Inr (new_model SKLearnPipelineModel :: unit Model)
   \<and> py_getattr (new_model SKLearnPipelineModel :: unit Model) ''n_estimators'' = Inr (PInt 200)
   \<and> py_getattr (fst (set_params (new_model SKLearnPipelineModel :: unit Model) [(''n_estimators'', PInt 5)])) ''n_estimators''
       = Inr (PInt 5)"
  by code_simp

section \<open>What fit returns\<close>

text \<open>
  C8.  The documented contract is that \<open>fit\<close> returns the model itself.  Neither \<open>fit\<close>
  does: for every model, inputs and targets the call raises or evaluates to \<open>None\<close>, and
  the chained call \<open>model.fit(inputs, targets).predict(inputs')\<close> always raises.
\<close>

theorem fit_returns_None:
  "snd (fit sk m inputs targets) \<noteq> Inr RSelf \<and> isl (fit_then_predict sk m inputs targets inputs')"
proof -
  have a: "snd (fit sk m inputs targets) \<noteq> Inr RSelf"
    by (auto simp: fit_def BaselineModel_fit_def SKLearnPipelineModel_fit_def Let_def
           split: ModelClass.splits sum.splits)
  then have "isl (fit_then_predict sk m inputs targets inputs')"
    by (auto simp: fit_then_predict_def split: prod.splits sum.splits retval.splits)
  with a show ?thesis by simp
qed

text \<open>
  The baseline model on the example: the fit succeeds and evaluates to \<open>None\<close>, and the
  chained \<open>predict\<close> raises \<open>AttributeError\<close>.
\<close>

theorem fit_returns_None_witness:
  "fit demo_sklearn (new_model BaselineModel) example_inputs example_targets = (example_model, Inr RNone)
   \<and> fit_then_predict demo_sklearn (new_model BaselineModel) example_inputs example_targets example_inputs
       = Inl AttributeError"
proof -
  have a: "fit demo_sklearn (new_model BaselineModel) example_inputs example_targets = (example_model, Inr RNone)"
    by code_simp
  then show ?thesis
    using fit_returns_None[of demo_sklearn "new_model BaselineModel" example_inputs example_targets example_inputs]
    by (simp add: fit_then_predict_def)
qed

section \<open>The baseline model on the example of the specification\<close>

text \<open>
  The fallback of the transformer on a fitted baseline model whose encoder holds at
  most 25 classes: a batch with a row whose merchant is not in the dictionary makes
  \<open>predict\<close> raise \<open>ValueError\<close>.
\<close>

lemma unseen_merchant_raises:
  assumes "py_getattr m ''pipeline'' = Inr (PMostFrequent d)"
    and "py_getattr m ''le'' = Inr (PLabelEncoder classes)"
    and "length classes \<le> 25"
    and "r \<in> set inputs" and "MERCHANT_NAME r = Some merchant" and "map_of d merchant = None"
  shows "BaselineModel_predict m inputs = Inl ValueError"
proof -
  have "25 \<in> set (MostFrequentCategoryByMerchant_transform d inputs)"
    using assms(4-6) by (force simp: MostFrequentCategoryByMerchant_transform_def)
  then have "list_ex (\<lambda>c. \<not> c < length classes) (MostFrequentCategoryByMerchant_transform d inputs)"
    using assms(3) unfolding list_ex_iff by (intro bexI[of _ 25]) simp_all
  then show ?thesis
    using assms(1,2)
    by (simp add: BaselineModel_predict_def decode_target_def LabelEncoder_inverse_transform_def)
qed

text \<open>
  C5.  After \<open>fit\<close> on the rows (A, X), (A, X), (A, Y), (B, Z), \<open>predict\<close> on a row of
  merchant A returns X.  On a row of the unseen merchant C the transformer falls back
  to the code 25, which the label encoder, holding three classes, cannot decode:
  \<open>predict\<close> raises \<open>ValueError\<close> instead of returning a fallback label.
\<close>

theorem baseline_example_unseen_merchant:
  "BaselineModel_fit (new_model BaselineModel) example_inputs example_targets = (example_model, Inr RNone)
   \<and> predict demo_sklearn example_model [merchant_row ''A''] = Inr [''X'']
   \<and> predict demo_sklearn example_model [merchant_row ''C''] = Inl ValueError"
  by code_simp

section \<open>Properties of the signer\<close>

lemma convert_unmapped:
  "list_ex (\<lambda>(n, col). map_of PANDERA_MLFLOW_MAPPING (dtype col) = None) cols
     \<Longrightarrow> convert_pandera_to_mlflow cols = Inl KeyError"
proof (induction cols)
  case Nil then show ?case by simp
next
  case (Cons p cols)
  obtain n col where p: "p = (n, col)" by (cases p)
  show ?case
  proof (cases "map_of PANDERA_MLFLOW_MAPPING (dtype col)")
    case None then show ?thesis using p by simp
  next
    case (Some t)
    with Cons p show ?thesis by simp
  qed
qed

text \<open>
  C6.  A schema with a column whose dtype name is not a key of the mapping table makes
  \<open>_convert_pandera_to_mlflow\<close> raise \<open>KeyError\<close>, which is not a \<open>ValueError\<close>.
\<close>

theorem unsupported_dtype_raises_KeyError:
  assumes "list_ex (\<lambda>(n, col). map_of PANDERA_MLFLOW_MAPPING (dtype col) = None) cols"
  shows "convert_pandera_to_mlflow cols = Inl KeyError \<and> \<not> is_ValueError KeyError"
  using convert_unmapped[OF assms] by simp

text \<open>A schema with a supported column followed by a datetime column.\<close>

theorem unsupported_dtype_witness:
  "convert_pandera_to_mlflow
     [(''AMOUNT'', \<lparr> required = True, dtype = ''float64'' \<rparr>),
      (''DATE_EMITTED'', \<lparr> required = True, dtype = ''datetime64[ns]'' \<rparr>)] = Inl KeyError
   \<and> \<not> is_ValueError KeyError"
proof -
  have "list_ex (\<lambda>(n, col). map_of PANDERA_MLFLOW_MAPPING (dtype col) = None)
     [(''AMOUNT'', \<lparr> required = True, dtype = ''float64'' \<rparr>),
      (''DATE_EMITTED'', \<lparr> required = True, dtype = ''datetime64[ns]'' \<rparr>)]"
    by code_simp
  from unsupported_dtype_raises_KeyError[OF this] show ?thesis .
qed

text \<open>
  The validator of the schema names.  A name that does not start with an underscore
  and that the module does not bind is rejected with \<open>ValueError\<close>, and the constructor
  then fails with the validation error.  A name of the module that is not a class (the
  alias \<open>Inputs\<close>, the module \<open>datetime\<close>) makes \<open>issubclass\<close> raise \<open>TypeError\<close>.
\<close>

lemma check_schema_name_unknown:
  "\<not> startswith_underscore v \<Longrightarrow> map_of schemas_globals v = None
     \<Longrightarrow> check_schema_name dunder v = Inl ValueError
         \<and> PanderaSigner_init dunder v v = Inl ValidationError"
  by (simp add: check_schema_name_def schemas_getattr_def PanderaSigner_init_def)

lemma check_schema_name_cases:
  "check_schema_name dunder ''BadSchema'' = Inl ValueError
   \<and> PanderaSigner_init dunder ''BadSchema'' ''BadSchema'' = Inl ValidationError
   \<and> check_schema_name dunder ''Inputs'' = Inl TypeError
   \<and> PanderaSigner_init dunder ''Inputs'' ''OutputsSchema'' = Inl TypeError
   \<and> PanderaSigner_init dunder ''InputsSchema'' ''datetime'' = Inl TypeError
   \<and> \<not> is_ValueError TypeError"
  by (simp add: check_schema_name_def schemas_getattr_def PanderaSigner_init_def
                startswith_underscore_def schemas_globals_def)

section \<open>Properties of the splitter\<close>

lemma holdout_partition: "returns_partition holdout"
proof -
  have "set (take n xs) \<inter> set (drop n xs) = {} \<and> set (take n xs) \<union> set (drop n xs) = set xs"
    if "distinct xs" for n and xs :: "nat list"
    using that set_take_disj_set_drop_if_distinct[of xs n n]
    by (simp add: set_append[symmetric] del: set_append)
  then show ?thesis
    by (auto simp: returns_partition_def holdout_def split: if_splits)
qed




section \<open>Properties of executions and of the job context\<close>

lemma bind_Inl [simp]: "bind (l, Inl e) f = (l, Inl e)"
  by (simp add: bind_def)

lemma bind_Inr [simp]: "bind (l, Inr x) f = (l @ fst (f x), snd (f x))"
  by (simp add: bind_def split: prod.splits)

lemma bind_Inr_iff:
  "bind m f = (l, Inr y) \<longleftrightarrow> (\<exists>l1 x l2. m = (l1, Inr x) \<and> f x = (l2, Inr y) \<and> l = l1 @ l2)"
  by (cases m; cases "snd m") (auto simp: bind_def split: prod.splits)

lemma bind_assoc: "bind (bind m g) f = bind m (\<lambda>x. bind (g x) f)"
  by (cases m; cases "snd m") (auto simp: bind_def split: prod.splits sum.splits)

lemma call_Inr_iff: "call ev r = (l, Inr x) \<longleftrightarrow> l = [ev] \<and> r = Inr x"
  by (auto simp: call_def)

lemma lift_Inr_iff: "lift r = (l, Inr x) \<longleftrightarrow> l = [] \<and> r = Inr x"
  by (auto simp: lift_def)

lemma ret_Inr_iff: "ret v = (l, Inr x) \<longleftrightarrow> l = [] \<and> x = v"
  by (auto simp: ret_def)

lemma Job_exit_eq:
  "Job_exit exc = ([ServiceStop MlflowService, ServiceStop AWSService, ServiceStop LoggerService], Inr False)"
  by (simp add: Job_exit_def call_def ret_def Service_stop_def)

lemma Job_enter_started:
  assumes "snd (Job_enter start :: ('ev job_event, unit) exec) = Inr ()"
  shows "(Job_enter start :: ('ev job_event, unit) exec) =
           ([ServiceStart LoggerService, ServiceStart AWSService, ServiceStart MlflowService], Inr ())"
proof -
  have l: "start LoggerService = Inr ()"
    using assms by (cases "start LoggerService") (simp_all add: Job_enter_def call_def)
  have a: "start AWSService = Inr ()"
    using assms l by (cases "start AWSService") (simp_all add: Job_enter_def call_def)
  have m: "start MlflowService = Inr ()"
    using assms l a by (cases "start MlflowService") (simp_all add: Job_enter_def call_def)
  show ?thesis by (simp add: Job_enter_def call_def l a m)
qed

text \<open>
  C3.  Once \<open>__enter__\<close> has returned (the services were started in the order logger,
  AWS, Mlflow), whatever \<open>run()\<close> does: if it raises \<open>e\<close>, \<open>__exit__\<close> still runs and stops
  the services in the order Mlflow, AWS, logger, and the statement raises \<open>e\<close> itself;
  if it returns, the same stops follow and the value is kept.  \<open>__exit__\<close> never raises
  and returns \<open>False\<close>, whatever exception it is given.
\<close>

theorem job_exit_stops_services_and_reraises:
  assumes "snd (Job_enter start :: ('ev job_event, unit) exec) = Inr ()"
  shows "with_job start (evs :: 'ev list, Inl e :: error + 'a) =
           ([ServiceStart LoggerService, ServiceStart AWSService, ServiceStart MlflowService]
              @ map InRun evs
              @ [ServiceStop MlflowService, ServiceStop AWSService, ServiceStop LoggerService],
            Inl e)
       \<and> with_job start (evs, Inr v :: error + 'a) =
           ([ServiceStart LoggerService, ServiceStart AWSService, ServiceStart MlflowService]
              @ map InRun evs
              @ [ServiceStop MlflowService, ServiceStop AWSService, ServiceStop LoggerService],
            Inr (Some v))
       \<and> (Job_exit exc :: ('ev job_event, bool) exec) =
           ([ServiceStop MlflowService, ServiceStop AWSService, ServiceStop LoggerService], Inr False)"
  using Job_enter_started[OF assms]
  by (simp add: with_job_def Job_exit_eq ret_def lift_def)

lemma all_started_enter: "snd (Job_enter all_started :: ('ev job_event, unit) exec) = Inr ()"
  by (simp add: Job_enter_def call_def all_started_def)

text \<open>A training job whose reader raises, run inside the job context.\<close>

theorem job_exit_witness:
  "with_job all_started (TrainingJob_run (demo_collaborators\<lparr>read := Inl (ExternalError ''no such file'')\<rparr>) demo_job)
     = ([ServiceStart LoggerService, ServiceStart AWSService, ServiceStart MlflowService,
         InRun StartRun, InRun Read, InRun (EndRun True),
         ServiceStop MlflowService, ServiceStop AWSService, ServiceStop LoggerService],
        Inl (ExternalError ''no such file''))"
proof -
  have run: "TrainingJob_run (demo_collaborators\<lparr>read := Inl (ExternalError ''no such file'')\<rparr>) demo_job
          = ([StartRun, Read, EndRun True], Inl (ExternalError ''no such file''))"
    by code_simp
  have "with_job all_started ([StartRun, Read, EndRun True] :: (unit, unit) train_event list,
            Inl (ExternalError ''no such file'') :: error + (unit, unit) locals)
          = ([ServiceStart LoggerService, ServiceStart AWSService, ServiceStart MlflowService]
              @ map InRun [StartRun, Read, EndRun True]
              @ [ServiceStop MlflowService, ServiceStop AWSService, ServiceStop LoggerService],
             Inl (ExternalError ''no such file''))"
    by (rule job_exit_stops_services_and_reraises[OF all_started_enter, THEN conjunct1])
  then show ?thesis by (simp add: run)
qed

section \<open>Properties of the training job\<close>

lemma iloc_Inr: "iloc df index = Inr xs \<Longrightarrow> xs = map (\<lambda>i. df ! i) index \<and> set xs \<subseteq> set df"
  by (auto simp: iloc_def list_all_iff split: if_splits)

lemma check_Inr: "FeatInputsSchema_check d = Inr d' \<Longrightarrow> d' = d"
  by (simp add: FeatInputsSchema_check_def split: if_splits)

lemma missing_values_cleaning_eq: "missing_values_cleaning X = map cleaned X"
  by (simp add: missing_values_cleaning_def cleaned_def fillna_def Let_def split: option.splits)

lemma drop_duplicates_seen_subset: "set (drop_duplicates_seen seen f xs) \<subseteq> set xs"
  by (induction xs arbitrary: seen) auto

lemma select_columns_subset: "set (map fst (select_columns raw)) \<subseteq> features ` set raw"
  using drop_duplicates_seen_subset[of "[]" id "map (\<lambda>r. (features r, CATEGORY r)) raw"]
  by (auto simp: select_columns_def drop_duplicates_by_def)

lemma next_split_Inr:
  "next_split (split tts s X T) = Inr p \<Longrightarrow> split tts s X T = Inr [p]"
proof -
  assume a: "next_split (split tts s X T) = Inr p"
  show ?thesis
  proof (cases "tts [0..<length X] (test_size s) (random_state s) (if stratify s then Some T else None)")
    case (Inl e)
    with a show ?thesis by (simp add: next_split_def split_def)
  next
    case (Inr q)
    with a show ?thesis by (cases q) (simp add: next_split_def split_def)
  qed
qed

lemma fit_call_Inr: "fit_call sk m X y = Inr m' \<Longrightarrow> fit sk m X y = (m', Inr RNone)"
proof -
  assume a: "fit_call sk m X y = Inr m'"
  have "snd (fit sk m X y) \<noteq> Inr RSelf"
    by (auto simp: fit_def BaselineModel_fit_def SKLearnPipelineModel_fit_def Let_def
           split: ModelClass.splits sum.splits)
  with a show ?thesis
    by (cases "fit sk m X y"; cases "snd (fit sk m X y)") (auto simp: fit_call_def intro: retval.exhaust)
qed

lemma score_all_success:
  "score_all c run_id m T out scs = (l, Inr u) \<Longrightarrow>
     map step_of l = concat (replicate (length scs) [ScoreMetric, LogScore])"
proof (induction scs arbitrary: l)
  case Nil then show ?case by (simp add: ret_def)
next
  case (Cons s scs)
  then show ?case
    by (auto simp: bind_Inr_iff call_Inr_iff lift_Inr_iff)
qed

lemma run_context_Inr_iff:
  "run_context started body = (tr, Inr y) \<longleftrightarrow>
     (\<exists>run_id l. started = Inr run_id \<and> body run_id = (l, Inr y) \<and> tr = StartRun # l @ [EndRun False])"
  by (cases started) (auto simp: run_context_def call_def split: prod.splits)

lemma run_success:
  assumes "TrainingJob_run c job = (tr, Inr res)"
  shows "\<exists>raw train_index test_index model1 score_log.
      read c = Inr raw
    \<and> split (train_test_split c) (splitter job)
          (missing_values_cleaning (map fst (select_columns raw))) (map snd (select_columns raw))
        = Inr [(train_index, test_index)]
    \<and> fit (sklearn c) (model job)
          (map (\<lambda>i. missing_values_cleaning (map fst (select_columns raw)) ! i) train_index)
          (map (\<lambda>i. map snd (select_columns raw) ! i) train_index) = (model1, Inr RNone)
    \<and> predict (sklearn c) model1
          (map (\<lambda>i. missing_values_cleaning (map fst (select_columns raw)) ! i) test_index)
        = Inr (outputs_test res)
    \<and> fit (sklearn c) model1 (missing_values_cleaning (map fst (select_columns raw)))
          (map snd (select_columns raw)) = (final_model res, Inr RNone)
    \<and> map step_of score_log = concat (replicate (length (scorers job)) [ScoreMetric, LogScore])
    \<and> tr =
        [StartRun, Read, Check (map fst (select_columns raw)),
         Split (missing_values_cleaning (map fst (select_columns raw))) (map snd (select_columns raw)),
         Fit (map (\<lambda>i. missing_values_cleaning (map fst (select_columns raw)) ! i) train_index)
             (map (\<lambda>i. map snd (select_columns raw) ! i) train_index),
         Predict (map (\<lambda>i. missing_values_cleaning (map fst (select_columns raw)) ! i) test_index)]
        @ score_log
        @ [Fit (missing_values_cleaning (map fst (select_columns raw))) (map snd (select_columns raw)),
           Sign (dropna (map (\<lambda>i. missing_values_cleaning (map fst (select_columns raw)) ! i) test_index))
                (outputs_test res),
           Save (final_model res) (model_signature res)
                (missing_values_cleaning (map fst (select_columns raw))),
           Register (registry_name job) (model_uri res),
           EndRun False]"
  using assms
  apply (simp add: TrainingJob_run_def TrainingJob_body_def run_context_Inr_iff Let_def)
  apply (clarsimp simp: bind_Inr_iff call_Inr_iff lift_Inr_iff ret_Inr_iff)
  apply (auto dest!: iloc_Inr check_Inr next_split_Inr fit_call_Inr score_all_success)
  done

lemma prefix_call:
  "step_of ev = s \<Longrightarrow> (\<And>x. r = Inr x \<Longrightarrow> prefix (map step_of (fst (f x))) rest)
     \<Longrightarrow> prefix (map step_of (fst (bind (call ev r) f))) (s # rest)"
  by (cases r) (simp_all add: call_def)

lemma prefix_lift:
  "(\<And>x. r = Inr x \<Longrightarrow> prefix (map step_of (fst (f x))) steps)
     \<Longrightarrow> prefix (map step_of (fst (bind (lift r) f))) steps"
  by (cases r) (simp_all add: lift_def)

lemma prefix_ret: "prefix (map step_of (fst (ret x))) steps"
  by (simp add: ret_def)

lemma prefix_score_all:
  assumes "\<And>u. prefix (map step_of (fst (f u))) rest"
  shows "prefix (map step_of (fst (bind (score_all c run_id m T out scs) f)))
           (concat (replicate (length scs) [ScoreMetric, LogScore]) @ rest)"
proof (induction scs)
  case Nil
  show ?case using assms by (simp add: ret_def)
next
  case (Cons sc scs)
  show ?case
    apply (simp add: bind_assoc del: bind_Inr bind_Inl)
    apply (intro prefix_lift prefix_call Cons.IH)
     apply simp_all
    done
qed

lemma body_prefix:
  "prefix (map step_of (fst (TrainingJob_body c self run_id))) (training_steps (length (scorers self)))"
  unfolding TrainingJob_body_def training_steps_def Let_def case_prod_unfold append.simps
  by (intro prefix_call prefix_lift prefix_score_all prefix_ret) simp_all

lemma run_prefix:
  assumes "TrainingJob_run c job = (tr, out)"
  shows "(tr = [StartRun] \<and> isl out)
       \<or> (\<exists>body. tr = StartRun # body @ [EndRun (isl out)]
             \<and> prefix (map step_of body) (training_steps (length (scorers job))))"
proof (cases "start_run c")
  case (Inl e)
  with assms show ?thesis
    by (auto simp: TrainingJob_run_def run_context_def call_def)
next
  case (Inr run_id)
  show ?thesis
    using assms body_prefix[of c job run_id]
    by (auto simp: TrainingJob_run_def run_context_def call_def Inr split: prod.splits)
qed

lemma all_bind:
  "list_all Q (fst m) \<Longrightarrow> (\<And>x. snd m = Inr x \<Longrightarrow> list_all Q (fst (f x)))
     \<Longrightarrow> list_all Q (fst (bind m f))"
  by (cases m; cases "snd m") auto

lemma all_score_all: "list_all (\<lambda>ev. model_rows ev = []) (fst (score_all c run_id m T out scs))"
proof (induction scs)
  case Nil show ?case by (simp add: ret_def)
next
  case (Cons sc scs)
  show ?case
    by (simp del: bind_Inr bind_Inl) (intro all_bind Cons.IH; simp add: lift_def call_def)
qed

lemma body_rows:
  assumes "read c = Inr raw"
  shows "list_all (\<lambda>ev. set (model_rows ev) \<subseteq> cleaned ` features ` set raw)
           (fst (TrainingJob_body c job run_id))"
proof -
  let ?Q = "\<lambda>ev :: ('a, 'c) train_event. set (model_rows ev) \<subseteq> cleaned ` features ` set raw"
  have sc: "list_all ?Q (fst (score_all c run_id m T out scs))" for m T out scs
    using all_score_all[of c run_id m T out scs] by (simp add: list_all_iff)
  have X: "set (missing_values_cleaning (map fst (select_columns raw))) \<subseteq> cleaned ` features ` set raw"
    using select_columns_subset[of raw] by (auto simp: missing_values_cleaning_eq)
  show ?thesis
    unfolding TrainingJob_body_def Let_def case_prod_unfold
    apply (intro all_bind sc)
    using X assms
    apply (auto simp: call_def lift_def ret_def dest!: iloc_Inr check_Inr)
    done
qed

lemma run_rows:
  assumes "TrainingJob_run c job = (tr, out)" and "read c = Inr raw"
    and "ev \<in> set tr" and "r' \<in> set (model_rows ev)"
  shows "r' \<in> cleaned ` features ` set raw"
proof (cases "start_run c")
  case (Inl e)
  with assms show ?thesis
    by (auto simp: TrainingJob_run_def run_context_def call_def)
next
  case (Inr run_id)
  have "tr = StartRun # fst (TrainingJob_body c job run_id) @ [EndRun (isl out)]"
    using assms(1) by (auto simp: TrainingJob_run_def run_context_def call_def Inr split: prod.splits)
  with assms(3,4) have "ev \<in> set (fst (TrainingJob_body c job run_id))" by auto
  with body_rows[OF assms(2), of job run_id] assms(4) show ?thesis
    by (auto simp: list_all_iff)
qed

lemma score_log_no_fit:
  assumes "map step_of l = concat (replicate n [ScoreMetric, LogScore])"
  shows "filter (\<lambda>ev. step_of ev = FitModel) l = []"
proof -
  have "set (map step_of l) \<subseteq> {ScoreMetric, LogScore}"
    unfolding assms by (induction n) auto
  then show ?thesis by (auto simp: filter_empty_conv)
qed


text \<open>The run of the stand-in job with one scorer.\<close>

lemma demo_run_ok: "\<not> isl (snd (TrainingJob_run demo_collaborators demo_job))"
  by code_simp



text \<open>The second row given to the splitter by the stand-in job: its merchant was missing.\<close>

lemma demo_read: "read demo_collaborators = Inr demo_rows"
  by (simp add: demo_collaborators_def)



end
